theory Spec2Isabelle
  imports Main "HOL-Library.AList"
begin

section \<open>Values, exceptions and the shared context\<close>

text \<open>
  The class \<open>AirlineAgentContext\<close> of \<open>main.py\<close>: four optional strings, all
  \<open>None\<close> after \<open>__init__\<close>. One instance exists per session; it is the state
  that every call of a tool may read and write.
\<close>

record AirlineAgentContext =
  passenger_name :: "string option"
  confirmation_number :: "string option"
  seat_number :: "string option"
  flight_number :: "string option"

definition new_context :: AirlineAgentContext where
  "new_context = \<lparr>passenger_name = None, confirmation_number = None,
     seat_number = None, flight_number = None\<rparr>"

text \<open>
  Python values that travel as arguments and results. \<open>VRunCtx\<close> is the
  \<open>RunContextWrapper\<close> around the shared context, \<open>VToolCtx r\<close> the local
  \<open>_DummyToolCtx(r)\<close>, \<open>VDict\<close> a dict with string keys in insertion order,
  \<open>VJson p\<close> the text that \<open>json.dumps\<close> returns for the dict \<open>p\<close> (kept abstract:
  no claim reads its characters), \<open>VObj\<close> any other object.
\<close>

datatype pyval =
    VNone
  | VStr string
  | VInt int
  | VRunCtx
  | VToolCtx "pyval option"
  | VDict "(string \<times> pyval) list"
  | VJson "(string \<times> pyval) list"
  | VObj nat

text \<open>
  Exceptions are instances of Python's \<open>Exception\<close>, the class that the
  \<open>except Exception\<close> clauses of the source catch.
\<close>

datatype exn =
    AttributeError string
  | TypeError string
  | UnboundLocalError string
  | OtherError string

text \<open>
  What a call returns: a plain value, or a coroutine that runs on the context
  when it is awaited and then returns or raises.
\<close>

datatype call_result =
    Value pyval
  | Coroutine "AirlineAgentContext \<Rightarrow> (exn + pyval) \<times> AirlineAgentContext"

type_synonym kwargs = "(string \<times> pyval) list"

type_synonym callable =
  "pyval list \<Rightarrow> kwargs \<Rightarrow> AirlineAgentContext \<Rightarrow> (exn + call_result) \<times> AirlineAgentContext"

text \<open>
  The tool object as \<open>safe_invoke_tool\<close> probes it. \<open>call_op\<close> is \<open>Some f\<close> when
  \<open>callable(tool_obj)\<close>; \<open>run\<close>, \<open>execute\<close> and \<open>on_invoke_tool\<close> are \<open>Some f\<close>
  when the attribute exists and is callable; \<open>params_json_schema\<close> is \<open>Some keys\<close>
  when the attribute is a non-empty dict, \<open>keys\<close> being the ordered names of its
  \<open>properties\<close> (empty when there are none); \<open>inner a\<close> is \<open>Some f\<close> when the
  attribute \<open>a\<close> exists and is callable; \<open>dir_names\<close> is \<open>dir(tool_obj)\<close>.
\<close>

record tool_obj =
  call_op :: "callable option"
  run :: "callable option"
  execute :: "callable option"
  on_invoke_tool :: "callable option"
  params_json_schema :: "string list option"
  inner :: "string \<Rightarrow> callable option"
  dir_names :: "string list"

section \<open>The resolver \<open>safe_invoke_tool\<close>\<close>

text \<open>
  The recurring three lines
  \<^verbatim>\<open>res = f(*args, **kwargs); if asyncio.iscoroutine(res): return await res; return res\<close>
\<close>

definition await_result ::
  "(exn + call_result) \<times> AirlineAgentContext \<Rightarrow> (exn + pyval) \<times> AirlineAgentContext" where
  "await_result r =
     (case r of
        (Inl e, s) \<Rightarrow> (Inl e, s)
      | (Inr (Value v), s) \<Rightarrow> (Inr v, s)
      | (Inr (Coroutine c), s) \<Rightarrow> c s)"

definition call_and_await ::
  "callable \<Rightarrow> pyval list \<Rightarrow> kwargs \<Rightarrow> AirlineAgentContext
     \<Rightarrow> (exn + pyval) \<times> AirlineAgentContext" where
  "call_and_await f args kw s = await_result (f args kw s)"

text \<open>
  Step 1 (lines 93-101): the direct call inside \<open>try ... except Exception: pass\<close>.
  \<open>None\<close> means that control goes on to step 2, with the context as the failed
  call left it.
\<close>

definition direct_call ::
  "tool_obj \<Rightarrow> pyval list \<Rightarrow> kwargs \<Rightarrow> AirlineAgentContext
     \<Rightarrow> pyval option \<times> AirlineAgentContext" where
  "direct_call tool args kw s =
     (case call_op tool of
        None \<Rightarrow> (None, s)
      | Some f \<Rightarrow>
          (case call_and_await f args kw s of
             (Inr v, s') \<Rightarrow> (Some v, s')
           | (Inl e, s') \<Rightarrow> (None, s')))"

text \<open>Lines 122-152: the payload dict, built from the schema or by the heuristics.\<close>

definition is_str :: "pyval \<Rightarrow> bool" where
  "is_str v = (case v of VStr x \<Rightarrow> True | VJson p \<Rightarrow> True | _ \<Rightarrow> False)"

definition filter_ctx :: "pyval list \<Rightarrow> pyval list" where
  "filter_ctx args = filter (\<lambda>a. a \<noteq> VRunCtx) args"

definition set_items :: "kwargs \<Rightarrow> kwargs \<Rightarrow> kwargs" where
  "set_items kvs payload = fold (\<lambda>(k, v) p. AList.update k v p) kvs payload"

definition common_param_names :: "string list" where
  "common_param_names =
     [''confirmation_number'', ''new_seat'', ''seat'', ''query'', ''question'', ''input'']"

definition build_payload :: "string list option \<Rightarrow> pyval list \<Rightarrow> kwargs \<Rightarrow> kwargs" where
  "build_payload schema args kw =
     (case schema of
        Some keys \<Rightarrow>
          set_items (filter (\<lambda>(k, v). k \<in> set keys) kw)
            (set_items (zip keys (filter_ctx args)) [])
      | None \<Rightarrow>
          (case args of
             [a] \<Rightarrow>
               if is_str a then [(''question'', a), (''query'', a), (''input'', a)]
               else set_items (zip common_param_names (filter_ctx args)) []
           | _ \<Rightarrow> set_items (zip common_param_names (filter_ctx args)) []))"

text \<open>
  Lines 155-195: the list of attempts. Each lambda of the source calls
  \<open>on_invoke\<close> with arguments fixed when the list is built, so an attempt is the
  data \<open>Call positional keyword\<close>; the first lambda also runs \<open>json.dumps\<close>,
  which raises \<open>TypeError\<close> on a value that JSON cannot hold.
\<close>

primrec json_serializable :: "pyval \<Rightarrow> bool" where
  "json_serializable VNone = True"
| "json_serializable (VStr x) = True"
| "json_serializable (VInt i) = True"
| "json_serializable VRunCtx = False"
| "json_serializable (VToolCtx r) = False"
| "json_serializable (VDict kvs) = list_all snd (map (map_prod id json_serializable) kvs)"
| "json_serializable (VJson p) = True"
| "json_serializable (VObj n) = False"

datatype attempt = Call "pyval list" kwargs | DumpsTypeError

definition run_ctx_arg :: "pyval list \<Rightarrow> pyval option" where
  "run_ctx_arg args = find (\<lambda>a. a = VRunCtx) args"

definition positional_attempts :: "pyval list \<Rightarrow> kwargs \<Rightarrow> attempt list" where
  "positional_attempts args payload =
     (let filtered_args = filter_ctx args; rc = run_ctx_arg args in
        [if json_serializable (VDict payload) then Call [VToolCtx rc, VJson payload] []
         else DumpsTypeError,
         Call [VToolCtx rc, VDict payload] []]
        @ (case filtered_args of
             [a] \<Rightarrow> if is_str a then [Call [a] []] else []
           | _ \<Rightarrow> [])
        @ [Call args [], Call filtered_args []]
        @ (case rc of
             Some c \<Rightarrow>
               [Call (filtered_args @ [c]) [], Call (c # filtered_args) [], Call [c] []]
           | None \<Rightarrow> [])
        @ [Call [] payload])"

text \<open>
  Lines 206-218: one round of the loop over the attempts. \<open>None\<close> is
  \<open>continue\<close> (the attempt raised, or returned \<open>None\<close>, or its coroutine raised
  while awaited); \<open>Some v\<close> is \<open>return v\<close>. The \<open>None\<close> test comes before the
  await, as in the source.
\<close>

definition attempt_outcome ::
  "callable \<Rightarrow> attempt \<Rightarrow> AirlineAgentContext \<Rightarrow> pyval option \<times> AirlineAgentContext" where
  "attempt_outcome on_invoke a s =
     (case a of
        DumpsTypeError \<Rightarrow> (None, s)
      | Call xs kw \<Rightarrow>
          (case on_invoke xs kw s of
             (Inl e, s') \<Rightarrow> (None, s')
           | (Inr (Value v), s') \<Rightarrow> if v = VNone then (None, s') else (Some v, s')
           | (Inr (Coroutine c), s') \<Rightarrow>
               (case c s' of
                  (Inr v, s'') \<Rightarrow> (Some v, s'')
                | (Inl e, s'') \<Rightarrow> (None, s''))))"

fun try_attempts ::
  "callable \<Rightarrow> attempt list \<Rightarrow> AirlineAgentContext \<Rightarrow> pyval option \<times> AirlineAgentContext" where
  "try_attempts on_invoke [] s = (None, s)"
| "try_attempts on_invoke (a # rest) s =
     (case attempt_outcome on_invoke a s of
        (Some v, s') \<Rightarrow> (Some v, s')
      | (None, s') \<Rightarrow> try_attempts on_invoke rest s')"

text \<open>Lines 224-237: the wrapped function, or the final \<open>AttributeError\<close>.\<close>

definition wrapped_attrs :: "string list" where
  "wrapped_attrs = [''func'', ''function'', ''__wrapped__'', ''_func'', ''_wrapped'']"

fun first_underlying :: "(string \<Rightarrow> callable option) \<Rightarrow> string list \<Rightarrow> callable option" where
  "first_underlying g [] = None"
| "first_underlying g (a # rest) =
     (case g a of Some f \<Rightarrow> Some f | None \<Rightarrow> first_underlying g rest)"

fun join :: "string \<Rightarrow> string list \<Rightarrow> string" where
  "join sep [] = []"
| "join sep [x] = x"
| "join sep (x # y # ys) = x @ sep @ join sep (y # ys)"

definition no_method_error :: "tool_obj \<Rightarrow> exn" where
  "no_method_error tool =
     AttributeError
       (''Tool object is not directly callable and no recognized invocation method found. ''
        @ ''Available attributes: '' @ join '', '' (dir_names tool))"

definition underlying_call ::
  "tool_obj \<Rightarrow> pyval list \<Rightarrow> kwargs \<Rightarrow> AirlineAgentContext
     \<Rightarrow> (exn + pyval) \<times> AirlineAgentContext" where
  "underlying_call tool args kw s =
     (case first_underlying (inner tool) wrapped_attrs of
        Some f \<Rightarrow> call_and_await f args kw s
      | None \<Rightarrow> (Inl (no_method_error tool), s))"

text \<open>
  Steps 2 to 5 (lines 104-237). \<open>run\<close> and \<open>execute\<close> are called outside any
  \<open>try\<close>. Line 221, \<open>on_invoke_last_exc = last_exc\<close>, stands at the level of the
  function body, while \<open>last_exc\<close> is bound only at line 197, inside the branch for
  \<open>on_invoke_tool\<close>: without that attribute the read raises \<open>UnboundLocalError\<close>.
\<close>

definition later_strategies ::
  "tool_obj \<Rightarrow> pyval list \<Rightarrow> kwargs \<Rightarrow> AirlineAgentContext
     \<Rightarrow> (exn + pyval) \<times> AirlineAgentContext" where
  "later_strategies tool args kw s =
     (case run tool of
        Some f \<Rightarrow> call_and_await f args kw s
      | None \<Rightarrow>
          (case execute tool of
             Some f \<Rightarrow> call_and_await f args kw s
           | None \<Rightarrow>
               (case on_invoke_tool tool of
                  Some on_invoke \<Rightarrow>
                    (case try_attempts on_invoke
                            (positional_attempts args
                               (build_payload (params_json_schema tool) args kw)) s of
                       (Some v, s') \<Rightarrow> (Inr v, s')
                     | (None, s') \<Rightarrow> underlying_call tool args kw s')
                | None \<Rightarrow> (Inl (UnboundLocalError ''last_exc''), s))))"

definition safe_invoke_tool ::
  "tool_obj \<Rightarrow> pyval list \<Rightarrow> kwargs \<Rightarrow> AirlineAgentContext
     \<Rightarrow> (exn + pyval) \<times> AirlineAgentContext" where
  "safe_invoke_tool tool args kw s =
     (case direct_call tool args kw s of
        (Some v, s') \<Rightarrow> (Inr v, s')
      | (None, s') \<Rightarrow> later_strategies tool args kw s')"

section \<open>The two tools\<close>

text \<open>
  \<open>str\<close> of an integer and \<open>str.lower\<close>, as the f-string of \<open>update_seat\<close> and
  the first line of \<open>faq_lookup_tool\<close> need them. A \<open>string\<close> here is ASCII text:
  \<open>lower\<close> maps the letters \<open>A\<close> to \<open>Z\<close> and leaves every other character, where
  Python's \<open>str.lower\<close> also maps letters beyond ASCII (the Kelvin sign to \<open>k\<close>).
  The queries of \<open>main\<close> and the keywords it looks for are ASCII.
\<close>

definition digit_char :: "nat \<Rightarrow> char" where
  "digit_char d = ''0123456789'' ! d"

fun str_nat :: "nat \<Rightarrow> string" where
  "str_nat n = (if n < 10 then [digit_char n] else str_nat (n div 10) @ [digit_char (n mod 10)])"

definition str_int :: "int \<Rightarrow> string" where
  "str_int i = (if i < 0 then CHR ''-'' # str_nat (nat (- i)) else str_nat (nat i))"

definition lower_char :: "char \<Rightarrow> char" where
  "lower_char c =
     (case map_of (zip ''ABCDEFGHIJKLMNOPQRSTUVWXYZ'' ''abcdefghijklmnopqrstuvwxyz'') c of
        Some l \<Rightarrow> l
      | None \<Rightarrow> c)"

definition lower :: "string \<Rightarrow> string" where
  "lower q = map lower_char q"

text \<open>Python's \<open>k in q\<close> on strings: \<open>k\<close> occurs in \<open>q\<close> as a contiguous piece.\<close>

fun str_in :: "string \<Rightarrow> string \<Rightarrow> bool" where
  "str_in k [] = (k = [])"
| "str_in k (c # cs) = (take (length k) (c # cs) = k \<or> str_in k cs)"

definition any_in :: "string list \<Rightarrow> string \<Rightarrow> bool" where
  "any_in ks q = list_ex (\<lambda>k. str_in k q) ks"

text \<open>
  Lines 49-63. \<open>faq_lookup_tool\<close> has the question as its only parameter and no
  access to the context.
\<close>

definition faq_lookup_tool :: "string \<Rightarrow> string" where
  "faq_lookup_tool question =
     (let q = lower question in
        if any_in [''baggage'', ''luggage'', ''carry-on'', ''bag'', ''weight''] q then
          ''You are allowed to bring one bag on the plane. It must be under 50 pounds ''
          @ ''and 22 inches x 14 inches x 9 inches.''
        else if any_in [''seat'', ''seats'', ''seating'', ''economy'', ''business'', ''exit row''] q then
          ''There are 120 seats on the plane. There are 22 business class seats and 98 economy seats. ''
          @ ''Exit rows are rows 4 and 16. Rows 5-8 are Economy Plus, with extra legroom.''
        else if any_in [''wifi'', ''internet'', ''connectivity'', ''network''] q then
          ''We have free wifi on the plane, join Airline-Wifi''
        else ''I'' @ [CHR 0x27] @ ''m sorry, I don'' @ [CHR 0x27]
          @ ''t know the answer to that question'')"

text \<open>
  Lines 67-74. \<open>rnd\<close> is the number that \<open>random.randint(100, 999)\<close> returns; it
  is read only when the flight number is \<open>None\<close>. The f-string prints a missing
  flight number as \<open>None\<close>.
\<close>

definition update_seat ::
  "int \<Rightarrow> string \<Rightarrow> string \<Rightarrow> AirlineAgentContext \<Rightarrow> string \<times> AirlineAgentContext" where
  "update_seat rnd confirmation new_seat ctx =
     (let ctx1 = (if flight_number ctx = None
                  then ctx\<lparr>flight_number := Some (''FLT-'' @ str_int rnd)\<rparr> else ctx);
          ctx2 = ctx1\<lparr>confirmation_number := Some confirmation\<rparr>;
          ctx3 = ctx2\<lparr>seat_number := Some new_seat\<rparr>
      in (''Updated seat to '' @ new_seat @ '' for confirmation number '' @ confirmation
            @ '' on flight '' @ (case flight_number ctx3 of Some f \<Rightarrow> f | None \<Rightarrow> ''None''),
          ctx3))"

text \<open>
  How a call \<open>f(*args, **kwargs)\<close> binds the parameters of a \<open>def\<close> without
  defaults: positional arguments fill the names from the left, each remaining
  name takes the keyword argument of that name. More positional arguments than
  names, a keyword that is no remaining name (unknown, or already filled by
  position) and a name left without value are a \<open>TypeError\<close>: \<open>None\<close> here.
\<close>

definition bind_params :: "string list \<Rightarrow> pyval list \<Rightarrow> kwargs \<Rightarrow> pyval list option" where
  "bind_params names args kw =
     (let rest = drop (length args) names in
        if length args \<le> length names \<and> list_all (\<lambda>(k, v). k \<in> set rest) kw
        then map_option (\<lambda>vs. args @ vs) (those (map (map_of kw) rest))
        else None)"

text \<open>
  The two \<open>async def\<close> functions as Python calls them: the call binds the
  arguments and returns a coroutine; the body runs when the coroutine is
  awaited. The functions are modelled on arguments of the annotated types, a
  string for \<open>question\<close>, \<open>confirmation_number\<close> and \<open>new_seat\<close> and the wrapper of
  the shared context for \<open>context\<close>, as every call in \<open>main\<close> passes them; on
  other values, which Python would hand to the body unchecked, the model answers
  with the \<open>TypeError\<close> of a failed binding, and no statement below reads it
  there.
\<close>

definition faq_lookup_tool_fn :: callable where
  "faq_lookup_tool_fn args kw s =
     (case bind_params [''question''] args kw of
        Some [VStr question] \<Rightarrow>
          (Inr (Coroutine (\<lambda>s'. (Inr (VStr (faq_lookup_tool question)), s'))), s)
      | _ \<Rightarrow> (Inl (TypeError ''faq_lookup_tool''), s))"

definition update_seat_fn :: "int \<Rightarrow> callable" where
  "update_seat_fn rnd args kw s =
     (case bind_params [''context'', ''confirmation_number'', ''new_seat''] args kw of
        Some [VRunCtx, VStr confirmation, VStr new_seat] \<Rightarrow>
          (Inr (Coroutine (\<lambda>s'. case update_seat rnd confirmation new_seat s' of
                                   (msg, s'') \<Rightarrow> (Inr (VStr msg), s''))), s)
      | _ \<Rightarrow> (Inl (TypeError ''update_seat''), s))"

section \<open>The loop of \<open>main\<close>\<close>

text \<open>
  Lines 297-313. The objects \<open>update_seat\<close> and \<open>faq_lookup_tool\<close> that \<open>main\<close>
  hands to the resolver are what the decorator \<open>function_tool\<close> of the
  \<open>agents\<close> package makes of the two functions, so the loop takes the two tool
  objects as parameters. What a round prints is its reply.
\<close>

datatype reply = SeatReply pyval | FaqReply pyval | ErrorReport exn

definition handle_query ::
  "tool_obj \<Rightarrow> tool_obj \<Rightarrow> string \<Rightarrow> AirlineAgentContext \<Rightarrow> reply \<times> AirlineAgentContext" where
  "handle_query seat_tool faq_tool q s =
     (if any_in [''seat'', ''change my seat'', ''seat change''] (lower q) then
        (case safe_invoke_tool seat_tool [VRunCtx, VStr ''ABC123'', VStr ''12A''] [] s of
           (Inr resp, s') \<Rightarrow> (SeatReply resp, s')
         | (Inl e, s') \<Rightarrow> (ErrorReport e, s'))
      else
        (case safe_invoke_tool faq_tool [VStr q] [] s of
           (Inr resp, s') \<Rightarrow> (FaqReply resp, s')
         | (Inl e, s') \<Rightarrow> (ErrorReport e, s')))"

fun main_loop ::
  "tool_obj \<Rightarrow> tool_obj \<Rightarrow> string list \<Rightarrow> AirlineAgentContext
     \<Rightarrow> reply list \<times> AirlineAgentContext" where
  "main_loop seat_tool faq_tool [] s = ([], s)"
| "main_loop seat_tool faq_tool (q # qs) s =
     (case handle_query seat_tool faq_tool q s of
        (out, s') \<Rightarrow>
          (case main_loop seat_tool faq_tool qs s' of
             (outs, s'') \<Rightarrow> (out # outs, s'')))"

definition example_queries :: "string list" where
  "example_queries =
     [''What'' @ [CHR 0x27] @ ''s the baggage policy?'',
      ''I want to change my seat'',
      ''Do you have Wi-Fi?'']"

definition main :: "tool_obj \<Rightarrow> tool_obj \<Rightarrow> reply list \<times> AirlineAgentContext" where
  "main seat_tool faq_tool = main_loop seat_tool faq_tool example_queries new_context"

section \<open>Tool objects used as concrete inputs\<close>

text \<open>
  A tool object without any of the probed attributes, and the same with one or
  two of them set. \<open>constant_fn x\<close> accepts any arguments and returns \<open>x\<close>;
  \<open>two_param_fn\<close> is a plain function of two positional string parameters;
  \<open>raising_fn\<close> raises at once; \<open>write_then_raise_fn\<close> writes the seat number and
  then raises; \<open>async_none_fn\<close> is an \<open>async def\<close> whose coroutine returns \<open>None\<close>
  for a context holder with JSON text and a string for any other arguments;
  \<open>sync_none_fn\<close> is the same as a plain \<open>def\<close>, returning the values themselves.
\<close>

definition bare_tool :: tool_obj where
  "bare_tool = \<lparr>call_op = None, run = None, execute = None, on_invoke_tool = None,
     params_json_schema = None, inner = (\<lambda>a. None),
     dir_names = [''__class__'', ''__doc__'', ''name'']\<rparr>"

definition plain_tool :: "callable \<Rightarrow> tool_obj" where
  "plain_tool f = bare_tool\<lparr>call_op := Some f\<rparr>"

definition constant_fn :: "string \<Rightarrow> callable" where
  "constant_fn x args kw s = (Inr (Value (VStr x)), s)"

definition two_param_fn :: callable where
  "two_param_fn args kw s =
     (case (args, kw) of
        ([VStr confirmation, VStr new_seat], []) \<Rightarrow>
          (Inr (Value (VStr (new_seat @ '' for '' @ confirmation))), s)
      | _ \<Rightarrow> (Inl (TypeError ''two_param_fn''), s))"

definition raising_fn :: callable where
  "raising_fn args kw s = (Inl (TypeError ''raising_fn''), s)"

definition write_then_raise_fn :: callable where
  "write_then_raise_fn args kw s =
     (Inl (OtherError ''seat service down''), s\<lparr>seat_number := Some ''99Z''\<rparr>)"

definition async_none_fn :: callable where
  "async_none_fn args kw s =
     (case args of
        [VToolCtx r, VJson p] \<Rightarrow> (Inr (Coroutine (\<lambda>s'. (Inr VNone, s'))), s)
      | _ \<Rightarrow> (Inr (Coroutine (\<lambda>s'. (Inr (VStr ''ok''), s'))), s))"

definition sync_none_fn :: callable where
  "sync_none_fn args kw s =
     (case args of
        [VToolCtx r, VJson p] \<Rightarrow> (Inr (Value VNone), s)
      | _ \<Rightarrow> (Inr (Value (VStr ''ok'')), s))"

definition two_param_tool :: tool_obj where
  "two_param_tool = bare_tool\<lparr>call_op := Some two_param_fn, run := Some (constant_fn ''run'')\<rparr>"


definition func_only_tool :: tool_obj where
  "func_only_tool =
     bare_tool\<lparr>inner := (\<lambda>a. if a = ''func'' then Some (constant_fn ''inner'') else None)\<rparr>"

definition async_none_tool :: tool_obj where
  "async_none_tool = bare_tool\<lparr>on_invoke_tool := Some async_none_fn\<rparr>"

definition sync_none_tool :: tool_obj where
  "sync_none_tool = bare_tool\<lparr>on_invoke_tool := Some sync_none_fn\<rparr>"

definition raising_call_func_tool :: tool_obj where
  "raising_call_func_tool =
     bare_tool\<lparr>call_op := Some raising_fn,
       inner := (\<lambda>a. if a = ''func'' then Some (constant_fn ''inner'') else None)\<rparr>"

definition write_then_raise_tool :: tool_obj where
  "write_then_raise_tool =
     bare_tool\<lparr>call_op := Some write_then_raise_fn, on_invoke_tool := Some raising_fn\<rparr>"

section \<open>Auxiliary facts\<close>

lemma try_attempts_append:
  "try_attempts oi pre s1 = (None, s2) \<Longrightarrow>
   try_attempts oi (pre @ rest) s1 = try_attempts oi rest s2"
  by (induction pre arbitrary: s1) (auto split: prod.splits option.splits)

lemma str_in_Nil: "str_in [] q"
  by (cases q) simp_all

lemma str_in_append: "str_in k (pre @ k @ post)"
proof (induction pre)
  case Nil
  show ?case
  proof (cases k)
    case Nil
    then show ?thesis by (simp add: str_in_Nil)
  next
    case (Cons c cs)
    then show ?thesis by simp
  qed
next
  case (Cons c pre)
  then show ?case by simp
qed





section \<open>Frame of \<open>update_seat\<close>\<close>

text \<open>
  C10. For every context, \<open>update_seat\<close> leaves \<open>passenger_name\<close> as it was; a
  flight number that is already set stays as it was, and a fresh one is written
  only over \<open>None\<close>; the fields written are \<open>confirmation_number\<close>,
  \<open>seat_number\<close> and, when it was \<open>None\<close>, \<open>flight_number\<close>: the context after the
  call is the context before with exactly those fields replaced.
\<close>

theorem update_seat_frame:
  "passenger_name (snd (update_seat rnd c n ctx)) = passenger_name ctx
   \<and> (flight_number ctx \<noteq> None \<longrightarrow>
        flight_number (snd (update_seat rnd c n ctx)) = flight_number ctx)
   \<and> (flight_number ctx = None \<longrightarrow>
        flight_number (snd (update_seat rnd c n ctx)) = Some (''FLT-'' @ str_int rnd))
   \<and> snd (update_seat rnd c n ctx) =
        ctx\<lparr>confirmation_number := Some c, seat_number := Some n,
            flight_number := (if flight_number ctx = None
                              then Some (''FLT-'' @ str_int rnd) else flight_number ctx)\<rparr>"
  by (simp add: update_seat_def Let_def)

theorem update_seat_frame_witness:
  "flight_number (new_context\<lparr>flight_number := Some ''FLT-500''\<rparr>) \<noteq> None
   \<and> flight_number (snd (update_seat 123 ''ABC123'' ''12A''
        (new_context\<lparr>flight_number := Some ''FLT-500''\<rparr>))) = Some ''FLT-500''
   \<and> flight_number new_context = None
   \<and> flight_number (snd (update_seat 123 ''ABC123'' ''12A'' new_context)) = Some ''FLT-123''"
  using update_seat_frame [of 123 "''ABC123''" "''12A''" "new_context\<lparr>flight_number := Some ''FLT-500''\<rparr>"]
    update_seat_frame [of 123 "''ABC123''" "''12A''" new_context]
  by (simp add: new_context_def str_int_def digit_char_def)

section \<open>Exhaustion\<close>

text \<open>
  C1. A tool object with none of the five capabilities (not callable, no \<open>run\<close>,
  no \<open>execute\<close>, no \<open>on_invoke_tool\<close>, no wrapped function) should make the
  resolver fail with the final error that lists the attributes of the object
  (\<open>no_method_error\<close>, the \<open>AttributeError\<close> of line 234). Evaluated on such an
  object, \<open>safe_invoke_tool\<close> instead raises the \<open>UnboundLocalError\<close> of line 221
  and never reaches line 234.
\<close>

theorem no_axis_tool_unbound_local:
  "safe_invoke_tool bare_tool [VStr ''hello''] [] new_context
     = (Inl (UnboundLocalError ''last_exc''), new_context)
   \<and> safe_invoke_tool bare_tool [VStr ''hello''] [] new_context
     \<noteq> (Inl (no_method_error bare_tool), new_context)"
  by (simp add: safe_invoke_tool_def direct_call_def later_strategies_def bare_tool_def
      no_method_error_def)

text \<open>
  The same holds for every tool object without \<open>on_invoke_tool\<close> whose earlier
  strategies give no result, whatever the arguments and the context.
\<close>

lemma no_on_invoke_unbound_local:
  "direct_call tool args kw s = (None, s1) \<Longrightarrow> run tool = None \<Longrightarrow> execute tool = None \<Longrightarrow>
   on_invoke_tool tool = None \<Longrightarrow>
   safe_invoke_tool tool args kw s = (Inl (UnboundLocalError ''last_exc''), s1)"
  by (simp add: safe_invoke_tool_def later_strategies_def)

text \<open>
  The final error is reached through \<open>on_invoke_tool\<close> only: when all its
  attempts are discarded and no wrapped function exists.
\<close>

lemma exhausted_after_attempts:
  "direct_call tool args kw s = (None, s1) \<Longrightarrow> run tool = None \<Longrightarrow> execute tool = None \<Longrightarrow>
   on_invoke_tool tool = Some oi \<Longrightarrow>
   try_attempts oi (positional_attempts args (build_payload (params_json_schema tool) args kw)) s1
     = (None, s2) \<Longrightarrow>
   first_underlying (inner tool) wrapped_attrs = None \<Longrightarrow>
   safe_invoke_tool tool args kw s = (Inl (no_method_error tool), s2)"
  by (simp add: safe_invoke_tool_def later_strategies_def underlying_call_def)

section \<open>Errors of \<open>run\<close>\<close>



section \<open>The wrapped function\<close>

text \<open>
  C3. A tool object whose only capability is a callable under \<open>func\<close> should have
  that callable called with the caller's arguments. \<open>underlying_call\<close>, the loop of
  lines 224-231, would do so and return its value; \<open>safe_invoke_tool\<close> raises the
  \<open>UnboundLocalError\<close> of line 221 before it gets there.
\<close>

theorem func_only_tool_unbound_local:
  "safe_invoke_tool func_only_tool [VStr ''hello''] [] new_context
     = (Inl (UnboundLocalError ''last_exc''), new_context)
   \<and> underlying_call func_only_tool [VStr ''hello''] [] new_context
     = (Inr (VStr ''inner''), new_context)"
  by (simp add: safe_invoke_tool_def direct_call_def later_strategies_def bare_tool_def
      func_only_tool_def underlying_call_def wrapped_attrs_def constant_fn_def
      call_and_await_def await_result_def)

text \<open>
  With an \<open>on_invoke_tool\<close> whose attempts are all discarded the wrapped function
  is reached: the first callable among the five names gets the arguments and
  keyword arguments of the caller unchanged.
\<close>

lemma unwrap_after_attempts:
  "direct_call tool args kw s = (None, s1) \<Longrightarrow> run tool = None \<Longrightarrow> execute tool = None \<Longrightarrow>
   on_invoke_tool tool = Some oi \<Longrightarrow>
   try_attempts oi (positional_attempts args (build_payload (params_json_schema tool) args kw)) s1
     = (None, s2) \<Longrightarrow>
   first_underlying (inner tool) wrapped_attrs = Some g \<Longrightarrow>
   safe_invoke_tool tool args kw s = call_and_await g args kw s2"
  by (simp add: safe_invoke_tool_def later_strategies_def underlying_call_def)

section \<open>The direct call\<close>






section \<open>The payload built from a schema\<close>



section \<open>The order of the strategies\<close>

text \<open>
  What the code does, strategy by strategy: a direct call that returns wins over
  everything; after a direct call that is absent or failed, \<open>run\<close> decides if it
  exists, else \<open>execute\<close> if it exists, else the attempts on \<open>on_invoke_tool\<close> if
  it exists, and the wrapped function comes after all those attempts were
  discarded. The attempts are at most nine, in the order of lines 174-195, each
  made once: when the attempts before one were all discarded and that one gives
  a result, this result is returned whatever the attempts behind it are. The
  lines on \<open>attempt_outcome\<close> say when one attempt is discarded and when it gives
  the result.
\<close>

lemma strategy_order:
  "(direct_call tool args kw s = (Some v, s1) \<longrightarrow>
      safe_invoke_tool tool args kw s = (Inr v, s1))
   \<and> (direct_call tool args kw s = (None, s1) \<and> run tool = Some r \<longrightarrow>
      safe_invoke_tool tool args kw s = call_and_await r args kw s1)
   \<and> (direct_call tool args kw s = (None, s1) \<and> run tool = None \<and> execute tool = Some x \<longrightarrow>
      safe_invoke_tool tool args kw s = call_and_await x args kw s1)
   \<and> (direct_call tool args kw s = (None, s1) \<and> run tool = None \<and> execute tool = None
        \<and> on_invoke_tool tool = Some oi
        \<and> try_attempts oi
             (positional_attempts args (build_payload (params_json_schema tool) args kw)) s1
           = (Some v, s2) \<longrightarrow>
      safe_invoke_tool tool args kw s = (Inr v, s2))
   \<and> (direct_call tool args kw s = (None, s1) \<and> run tool = None \<and> execute tool = None
        \<and> on_invoke_tool tool = Some oi
        \<and> try_attempts oi
             (positional_attempts args (build_payload (params_json_schema tool) args kw)) s1
           = (None, s2) \<longrightarrow>
      safe_invoke_tool tool args kw s = underlying_call tool args kw s2)
   \<and> (try_attempts oi pre s1 = (None, s2) \<and> attempt_outcome oi a s2 = (Some v, s3) \<longrightarrow>
      try_attempts oi (pre @ a # rest) s1 = (Some v, s3))
   \<and> (oi xs k s = (Inl e, s1) \<longrightarrow> attempt_outcome oi (Call xs k) s = (None, s1))
   \<and> (oi xs k s = (Inr (Value VNone), s1) \<longrightarrow> attempt_outcome oi (Call xs k) s = (None, s1))
   \<and> (oi xs k s = (Inr (Value v), s1) \<and> v \<noteq> VNone \<longrightarrow>
      attempt_outcome oi (Call xs k) s = (Some v, s1))
   \<and> (oi xs k s = (Inr (Coroutine c), s1) \<and> c s1 = (Inl e, s2) \<longrightarrow>
      attempt_outcome oi (Call xs k) s = (None, s2))
   \<and> (oi xs k s = (Inr (Coroutine c), s1) \<and> c s1 = (Inr v, s2) \<longrightarrow>
      attempt_outcome oi (Call xs k) s = (Some v, s2))
   \<and> (run_ctx_arg args = Some ctx \<and> filter_ctx args = [a1] \<and> is_str a1
        \<and> json_serializable (VDict p) \<longrightarrow>
      positional_attempts args p =
        [Call [VToolCtx (Some ctx), VJson p] [], Call [VToolCtx (Some ctx), VDict p] [],
         Call [a1] [], Call args [], Call [a1] [], Call [a1, ctx] [], Call [ctx, a1] [],
         Call [ctx] [], Call [] p])
   \<and> length (positional_attempts args p) \<le> 9
   \<and> (call_op tool = Some f \<and> call_and_await f args kw s = (Inl e, s1)
        \<and> run tool = Some r \<and> call_and_await r args kw s1 = (Inr v, s2) \<longrightarrow>
      safe_invoke_tool tool args kw s = (Inr v, s2))"
proof (intro conjI impI)
  show "length (positional_attempts args p) \<le> 9"
    by (auto simp: positional_attempts_def Let_def split: list.splits option.splits)
next
  assume "try_attempts oi pre s1 = (None, s2) \<and> attempt_outcome oi a s2 = (Some v, s3)"
  then show "try_attempts oi (pre @ a # rest) s1 = (Some v, s3)"
    by (simp add: try_attempts_append)
qed (auto simp: safe_invoke_tool_def later_strategies_def direct_call_def attempt_outcome_def
      positional_attempts_def Let_def)

text \<open>The facts above at three concrete calls.\<close>

lemma strategy_order_examples:
  "call_op two_param_tool = Some two_param_fn
   \<and> call_and_await two_param_fn [VRunCtx, VStr ''ABC123'', VStr ''12A''] [] new_context
       = (Inl (TypeError ''two_param_fn''), new_context)
   \<and> direct_call two_param_tool [VRunCtx, VStr ''ABC123'', VStr ''12A''] [] new_context
       = (None, new_context)
   \<and> run two_param_tool = Some (constant_fn ''run'')
   \<and> call_and_await (constant_fn ''run'') [VRunCtx, VStr ''ABC123'', VStr ''12A''] [] new_context
       = (Inr (VStr ''run''), new_context)
   \<and> safe_invoke_tool two_param_tool [VRunCtx, VStr ''ABC123'', VStr ''12A''] [] new_context
       = (Inr (VStr ''run''), new_context)
   \<and> direct_call two_param_tool [VStr ''ABC123'', VStr ''12A''] [] new_context
       = (Some (VStr ''12A for ABC123''), new_context)
   \<and> safe_invoke_tool two_param_tool [VStr ''ABC123'', VStr ''12A''] [] new_context
       = (Inr (VStr ''12A for ABC123''), new_context)
   \<and> direct_call write_then_raise_tool [VStr ''hello''] [] new_context
       = (None, new_context\<lparr>seat_number := Some ''99Z''\<rparr>)
   \<and> run write_then_raise_tool = None \<and> execute write_then_raise_tool = None
   \<and> on_invoke_tool write_then_raise_tool = Some raising_fn
   \<and> try_attempts raising_fn
        (positional_attempts [VStr ''hello'']
           (build_payload (params_json_schema write_then_raise_tool) [VStr ''hello''] []))
        (new_context\<lparr>seat_number := Some ''99Z''\<rparr>)
       = (None, new_context\<lparr>seat_number := Some ''99Z''\<rparr>)
   \<and> safe_invoke_tool write_then_raise_tool [VStr ''hello''] [] new_context
       = (Inl (no_method_error write_then_raise_tool), new_context\<lparr>seat_number := Some ''99Z''\<rparr>)"
proof -
  let ?a3 = "[VRunCtx, VStr ''ABC123'', VStr ''12A'']"
  let ?a2 = "[VStr ''ABC123'', VStr ''12A'']"
  let ?w = "new_context\<lparr>seat_number := Some ''99Z''\<rparr>"
  have c: "call_op two_param_tool = Some two_param_fn"
    and r: "run two_param_tool = Some (constant_fn ''run'')"
    by (simp_all add: two_param_tool_def bare_tool_def)
  have f3: "call_and_await two_param_fn ?a3 [] new_context
       = (Inl (TypeError ''two_param_fn''), new_context)"
    by (simp add: call_and_await_def await_result_def two_param_fn_def)
  have d3: "direct_call two_param_tool ?a3 [] new_context = (None, new_context)"
    by (simp add: direct_call_def c f3)
  have r3: "call_and_await (constant_fn ''run'') ?a3 [] new_context
       = (Inr (VStr ''run''), new_context)"
    by (simp add: call_and_await_def await_result_def constant_fn_def)
  have d2: "direct_call two_param_tool ?a2 [] new_context
       = (Some (VStr ''12A for ABC123''), new_context)"
    by (simp add: direct_call_def c call_and_await_def await_result_def two_param_fn_def)
  have wt: "run write_then_raise_tool = None" "execute write_then_raise_tool = None"
     "on_invoke_tool write_then_raise_tool = Some raising_fn"
     "call_op write_then_raise_tool = Some write_then_raise_fn"
     "params_json_schema write_then_raise_tool = None"
     "inner write_then_raise_tool = (\<lambda>a. None)"
    by (simp_all add: write_then_raise_tool_def bare_tool_def)
  have dw: "direct_call write_then_raise_tool [VStr ''hello''] [] new_context = (None, ?w)"
    by (simp add: direct_call_def wt call_and_await_def await_result_def write_then_raise_fn_def)
  have tw: "try_attempts raising_fn
        (positional_attempts [VStr ''hello'']
           (build_payload (params_json_schema write_then_raise_tool) [VStr ''hello''] [])) ?w
       = (None, ?w)"
    by (simp add: wt positional_attempts_def build_payload_def is_str_def filter_ctx_def
        run_ctx_arg_def attempt_outcome_def raising_fn_def Let_def)
  have uw: "underlying_call write_then_raise_tool [VStr ''hello''] [] ?w
       = (Inl (no_method_error write_then_raise_tool), ?w)"
    by (simp add: underlying_call_def wt wrapped_attrs_def)
  show ?thesis
    using c r f3 d3 r3 d2 wt dw tw uw
      strategy_order [where tool = two_param_tool and args = ?a3 and kw = "[]"
        and s = new_context and ?s1.0 = new_context and ?s2.0 = new_context
        and f = two_param_fn and e = "TypeError ''two_param_fn''"
        and r = "constant_fn ''run''" and v = "VStr ''run''"]
      strategy_order [where tool = two_param_tool and args = ?a2 and kw = "[]"
        and s = new_context and ?s1.0 = new_context and v = "VStr ''12A for ABC123''"]
      strategy_order [where tool = write_then_raise_tool and args = "[VStr ''hello'']"
        and kw = "[]" and s = new_context and ?s1.0 = ?w and ?s2.0 = ?w and oi = raising_fn]
    by simp
qed

text \<open>
  C7. The attempts on \<open>on_invoke_tool\<close> should be tried in their order until one
  gives, without raising, a result that is not \<open>None\<close>, and the wrapped function
  should come after them. With \<open>sync_none_fn\<close>, whose first attempt (context
  holder and JSON text) returns \<open>None\<close>, the code does so: lines 210-211 pass the
  attempt over and the string of the second attempt is returned. With
  \<open>async_none_fn\<close>, whose first attempt returns a coroutine that gives \<open>None\<close>, the
  test of line 210 sees the coroutine, line 213 awaits it, and the resolver
  returns \<open>None\<close>, although the second attempt (context holder and dict) gives
  the string. And for a tool object with a direct call that raises and a
  callable \<open>func\<close>, but no \<open>on_invoke_tool\<close>, the resolver raises the
  \<open>UnboundLocalError\<close> of line 221 where the order has the wrapped function next.
\<close>

theorem awaited_none_wins:
  "safe_invoke_tool sync_none_tool [VStr ''hello''] [] new_context
     = (Inr (VStr ''ok''), new_context)
   \<and> positional_attempts [VStr ''hello''] (build_payload None [VStr ''hello''] []) ! 1
     = Call [VToolCtx None, VDict [(''question'', VStr ''hello''), (''query'', VStr ''hello''),
         (''input'', VStr ''hello'')]] []
   \<and> attempt_outcome async_none_fn
        (positional_attempts [VStr ''hello''] (build_payload None [VStr ''hello''] []) ! 1)
        new_context = (Some (VStr ''ok''), new_context)
   \<and> safe_invoke_tool async_none_tool [VStr ''hello''] [] new_context = (Inr VNone, new_context)
   \<and> direct_call raising_call_func_tool [VStr ''hello''] [] new_context = (None, new_context)
   \<and> underlying_call raising_call_func_tool [VStr ''hello''] [] new_context
     = (Inr (VStr ''inner''), new_context)
   \<and> safe_invoke_tool raising_call_func_tool [VStr ''hello''] [] new_context
     = (Inl (UnboundLocalError ''last_exc''), new_context)"
proof -
  have a: "positional_attempts [VStr ''hello''] (build_payload None [VStr ''hello''] [])
      = [Call [VToolCtx None, VJson [(''question'', VStr ''hello''), (''query'', VStr ''hello''),
           (''input'', VStr ''hello'')]] [],
         Call [VToolCtx None, VDict [(''question'', VStr ''hello''), (''query'', VStr ''hello''),
           (''input'', VStr ''hello'')]] [],
         Call [VStr ''hello''] [], Call [VStr ''hello''] [], Call [VStr ''hello''] [],
         Call [] [(''question'', VStr ''hello''), (''query'', VStr ''hello''),
           (''input'', VStr ''hello'')]]"
    by (simp add: positional_attempts_def build_payload_def is_str_def filter_ctx_def
        run_ctx_arg_def Let_def)
  have s1: "safe_invoke_tool sync_none_tool [VStr ''hello''] [] new_context
      = (Inr (VStr ''ok''), new_context)"
    by (simp add: safe_invoke_tool_def direct_call_def later_strategies_def bare_tool_def
        sync_none_tool_def sync_none_fn_def a attempt_outcome_def)
  have s2: "safe_invoke_tool async_none_tool [VStr ''hello''] [] new_context
      = (Inr VNone, new_context)"
    by (simp add: safe_invoke_tool_def direct_call_def later_strategies_def bare_tool_def
        async_none_tool_def async_none_fn_def a attempt_outcome_def)
  have s3: "attempt_outcome async_none_fn
        (positional_attempts [VStr ''hello''] (build_payload None [VStr ''hello''] []) ! 1)
        new_context = (Some (VStr ''ok''), new_context)"
    by (simp add: a attempt_outcome_def async_none_fn_def)
  have d: "direct_call raising_call_func_tool [VStr ''hello''] [] new_context
      = (None, new_context)"
    by (simp add: direct_call_def raising_call_func_tool_def bare_tool_def raising_fn_def
        call_and_await_def await_result_def)
  have u: "underlying_call raising_call_func_tool [VStr ''hello''] [] new_context
      = (Inr (VStr ''inner''), new_context)"
    by (simp add: underlying_call_def raising_call_func_tool_def bare_tool_def wrapped_attrs_def
        constant_fn_def call_and_await_def await_result_def)
  have f: "run raising_call_func_tool = None" "execute raising_call_func_tool = None"
    "on_invoke_tool raising_call_func_tool = None"
    by (simp_all add: raising_call_func_tool_def bare_tool_def)
  have s4: "safe_invoke_tool raising_call_func_tool [VStr ''hello''] [] new_context
      = (Inl (UnboundLocalError ''last_exc''), new_context)"
    by (simp add: safe_invoke_tool_def d later_strategies_def f)
  show ?thesis using s1 s2 s3 d u s4 by (simp add: a)
qed

section \<open>The seat update, end to end\<close>

text \<open>
  C8. On a context with all fields unset, \<open>update_seat\<close> with confirmation
  \<open>ABC123\<close> and seat \<open>12A\<close> sets the confirmation number and the seat number to
  these and the flight number to a value that is not \<open>None\<close>, and returns a
  message in which all three values occur. A policy question asked afterwards
  in the same session leaves the context, and with it the flight number, as it
  is: \<open>faq_lookup_tool\<close> returns its answer on any context without changing it,
  and the loop of \<open>main\<close>, run on a seat request followed by a policy question
  with the two functions as directly callable tools, ends with the flight number
  that the seat request set.
\<close>

theorem seat_update_scenario:
  "update_seat rnd ''ABC123'' ''12A'' new_context =
     (''Updated seat to 12A for confirmation number ABC123 on flight FLT-'' @ str_int rnd,
      \<lparr>passenger_name = None, confirmation_number = Some ''ABC123'',
         seat_number = Some ''12A'', flight_number = Some (''FLT-'' @ str_int rnd)\<rparr>)
   \<and> flight_number (snd (update_seat rnd ''ABC123'' ''12A'' new_context)) \<noteq> None
   \<and> str_in ''ABC123'' (fst (update_seat rnd ''ABC123'' ''12A'' new_context))
   \<and> str_in ''12A'' (fst (update_seat rnd ''ABC123'' ''12A'' new_context))
   \<and> str_in (''FLT-'' @ str_int rnd) (fst (update_seat rnd ''ABC123'' ''12A'' new_context))
   \<and> call_and_await faq_lookup_tool_fn [VStr question] [] s
       = (Inr (VStr (faq_lookup_tool question)), s)
   \<and> main_loop (plain_tool (update_seat_fn rnd)) (plain_tool faq_lookup_tool_fn)
        [''I want to change my seat'', ''What is the baggage policy?''] new_context
       = ([SeatReply (VStr (''Updated seat to 12A for confirmation number ABC123 on flight FLT-''
                            @ str_int rnd)),
           FaqReply (VStr (faq_lookup_tool ''What is the baggage policy?''))],
          \<lparr>passenger_name = None, confirmation_number = Some ''ABC123'',
             seat_number = Some ''12A'', flight_number = Some (''FLT-'' @ str_int rnd)\<rparr>)"
proof -
  let ?msg = "''Updated seat to 12A for confirmation number ABC123 on flight FLT-'' @ str_int rnd"
  let ?s1 = "\<lparr>passenger_name = None, confirmation_number = Some ''ABC123'',
         seat_number = Some ''12A'', flight_number = Some (''FLT-'' @ str_int rnd)\<rparr>"
  have u: "update_seat rnd ''ABC123'' ''12A'' new_context = (?msg, ?s1)"
    by (simp add: update_seat_def new_context_def Let_def)
  have m1: "str_in ''ABC123'' ?msg"
    using str_in_append [of "''ABC123''" "''Updated seat to 12A for confirmation number ''"
        "'' on flight FLT-'' @ str_int rnd"]
    by simp
  have m2: "str_in ''12A'' ?msg"
    using str_in_append [of "''12A''" "''Updated seat to ''"
        "'' for confirmation number ABC123 on flight FLT-'' @ str_int rnd"]
    by simp
  have m3: "str_in (''FLT-'' @ str_int rnd) ?msg"
    using str_in_append [of "''FLT-'' @ str_int rnd"
        "''Updated seat to 12A for confirmation number ABC123 on flight ''" "[]"]
    by simp
  have q: "call_and_await faq_lookup_tool_fn [VStr question] [] s
       = (Inr (VStr (faq_lookup_tool question)), s)" for question s
    by (simp add: call_and_await_def await_result_def faq_lookup_tool_fn_def bind_params_def)
  have c1: "any_in [''seat'', ''change my seat'', ''seat change'']
              (lower ''I want to change my seat'')"
    by (simp add: any_in_def lower_def lower_char_def)
  have c2: "\<not> any_in [''seat'', ''change my seat'', ''seat change'']
              (lower ''What is the baggage policy?'')"
    by (simp add: any_in_def lower_def lower_char_def)
  have h1: "handle_query (plain_tool (update_seat_fn rnd)) (plain_tool faq_lookup_tool_fn)
        ''I want to change my seat'' new_context = (SeatReply (VStr ?msg), ?s1)"
    unfolding handle_query_def using c1 u
    by (simp add: safe_invoke_tool_def direct_call_def plain_tool_def bare_tool_def
        call_and_await_def await_result_def update_seat_fn_def bind_params_def)
  have h2: "handle_query (plain_tool (update_seat_fn rnd)) (plain_tool faq_lookup_tool_fn)
        ''What is the baggage policy?'' ?s1
      = (FaqReply (VStr (faq_lookup_tool ''What is the baggage policy?'')), ?s1)"
    unfolding handle_query_def using c2 q [of "''What is the baggage policy?''" ?s1]
    by (simp add: safe_invoke_tool_def direct_call_def plain_tool_def bare_tool_def)
  show ?thesis using u m1 m2 m3 q h1 h2 by simp
qed

section \<open>The loop and a failing request\<close>

text \<open>
  An error leaves the context as the failed call left it. With
  \<open>write_then_raise_tool\<close> as the seat tool the second of the three example
  queries fails with the final \<open>AttributeError\<close> of the resolver, after the direct
  call has written the seat number: the first and the third query are answered,
  but the context at the end holds that seat number, which the first and the
  third query alone would not have set.
\<close>

theorem failed_request_changes_context:
  "main write_then_raise_tool (plain_tool faq_lookup_tool_fn)
     = ([FaqReply (VStr (faq_lookup_tool (example_queries ! 0))),
         ErrorReport (no_method_error write_then_raise_tool),
         FaqReply (VStr (faq_lookup_tool (example_queries ! 2)))],
        new_context\<lparr>seat_number := Some ''99Z''\<rparr>)
   \<and> main_loop write_then_raise_tool (plain_tool faq_lookup_tool_fn)
        [example_queries ! 0, example_queries ! 2] new_context
     = ([FaqReply (VStr (faq_lookup_tool (example_queries ! 0))),
         FaqReply (VStr (faq_lookup_tool (example_queries ! 2)))],
        new_context)
   \<and> new_context\<lparr>seat_number := Some ''99Z''\<rparr> \<noteq> new_context"
proof -
  let ?ft = "plain_tool faq_lookup_tool_fn"
  let ?w = "new_context\<lparr>seat_number := Some ''99Z''\<rparr>"
  have c0: "\<not> any_in [''seat'', ''change my seat'', ''seat change''] (lower (example_queries ! 0))"
    by (simp add: example_queries_def any_in_def lower_def lower_char_def)
  have c1: "any_in [''seat'', ''change my seat'', ''seat change''] (lower (example_queries ! 1))"
    by (simp add: example_queries_def any_in_def lower_def lower_char_def)
  have c2: "\<not> any_in [''seat'', ''change my seat'', ''seat change''] (lower (example_queries ! 2))"
    by (simp add: example_queries_def any_in_def lower_def lower_char_def)
  have q: "safe_invoke_tool ?ft [VStr x] [] s = (Inr (VStr (faq_lookup_tool x)), s)" for x s
    by (simp add: safe_invoke_tool_def direct_call_def plain_tool_def bare_tool_def
        call_and_await_def await_result_def faq_lookup_tool_fn_def bind_params_def)
  have e: "safe_invoke_tool write_then_raise_tool [VRunCtx, VStr ''ABC123'', VStr ''12A''] []
             new_context = (Inl (no_method_error write_then_raise_tool), ?w)"
    by (simp add: safe_invoke_tool_def direct_call_def later_strategies_def
        write_then_raise_tool_def bare_tool_def call_and_await_def await_result_def
        write_then_raise_fn_def positional_attempts_def build_payload_def set_items_def
        common_param_names_def
        is_str_def filter_ctx_def run_ctx_arg_def attempt_outcome_def raising_fn_def Let_def
        underlying_call_def wrapped_attrs_def)
  have h0: "handle_query write_then_raise_tool ?ft (example_queries ! 0) s
      = (FaqReply (VStr (faq_lookup_tool (example_queries ! 0))), s)" for s
    unfolding handle_query_def using c0 by (simp add: q)
  have h1: "handle_query write_then_raise_tool ?ft (example_queries ! 1) new_context
      = (ErrorReport (no_method_error write_then_raise_tool), ?w)"
    unfolding handle_query_def using c1 by (simp add: e)
  have h2: "handle_query write_then_raise_tool ?ft (example_queries ! 2) s
      = (FaqReply (VStr (faq_lookup_tool (example_queries ! 2))), s)" for s
    unfolding handle_query_def using c2 by (simp add: q)
  have l: "example_queries = [example_queries ! 0, example_queries ! 1, example_queries ! 2]"
    by (simp add: example_queries_def)
  have m: "main write_then_raise_tool ?ft
     = main_loop write_then_raise_tool ?ft
         [example_queries ! 0, example_queries ! 1, example_queries ! 2] new_context"
    unfolding main_def using l by simp
  have n: "?w \<noteq> new_context"
    by (simp add: new_context_def)
  show ?thesis
    unfolding m using n h0 h1 h2 by simp
qed

lemma main_loop_length: "length (fst (main_loop st ft qs s)) = length qs"
proof (induction qs arbitrary: s)
  case Nil
  show ?case by simp
next
  case (Cons q qs)
  obtain out s' where h: "handle_query st ft q s = (out, s')"
    by (cases "handle_query st ft q s")
  obtain outs s'' where m: "main_loop st ft qs s' = (outs, s'')"
    by (cases "main_loop st ft qs s'")
  from Cons.IH [of s'] m have "length outs = length qs" by simp
  with h m show ?case by simp
qed

text \<open>
  C9, amended. The loop gives every request its round, whatever the earlier
  rounds did: each query gets one reply. When the second of three requests
  raises an error, the error is reported, the first and the third request
  produce their results, and the third is handled on the context as the second
  left it. The error handler writes nothing to the context: the context after
  a failed request is the one in which the resolver raised, so it keeps what the
  tool of that request wrote before the error. When the failed request left the
  context as it found it, replies and final context of the other two are those
  of a session with the first and the third request alone.
\<close>

theorem dispatch_continues:
  "handle_query st ft q1 s0 = (o1, s1) \<Longrightarrow>
   handle_query st ft q2 s1 = (ErrorReport e, s2) \<Longrightarrow>
   handle_query st ft q3 s2 = (o3, s3) \<Longrightarrow>
   main_loop st ft [q1, q2, q3] s0 = ([o1, ErrorReport e, o3], s3)
   \<and> (safe_invoke_tool st [VRunCtx, VStr ''ABC123'', VStr ''12A''] [] s1 = (Inl e, s2)
        \<or> safe_invoke_tool ft [VStr q2] [] s1 = (Inl e, s2))
   \<and> (s2 = s1 \<longrightarrow> main_loop st ft [q1, q3] s0 = ([o1, o3], s3))
   \<and> length (fst (main_loop st ft qs s)) = length qs"
proof (intro conjI impI)
  assume h: "handle_query st ft q1 s0 = (o1, s1)" "handle_query st ft q2 s1 = (ErrorReport e, s2)"
    "handle_query st ft q3 s2 = (o3, s3)"
  show "main_loop st ft [q1, q2, q3] s0 = ([o1, ErrorReport e, o3], s3)"
    using h by simp
  show "safe_invoke_tool st [VRunCtx, VStr ''ABC123'', VStr ''12A''] [] s1 = (Inl e, s2)
        \<or> safe_invoke_tool ft [VStr q2] [] s1 = (Inl e, s2)"
    using h(2) by (auto simp: handle_query_def split: if_splits prod.splits sum.splits)
  show "length (fst (main_loop st ft qs s)) = length qs"
    by (rule main_loop_length)
  assume "s2 = s1"
  then show "main_loop st ft [q1, q3] s0 = ([o1, o3], s3)"
    using h by simp
qed

theorem dispatch_continues_witness:
  "handle_query bare_tool (plain_tool faq_lookup_tool_fn) (example_queries ! 0) new_context
     = (FaqReply (VStr (faq_lookup_tool (example_queries ! 0))), new_context)
   \<and> handle_query bare_tool (plain_tool faq_lookup_tool_fn) (example_queries ! 1) new_context
     = (ErrorReport (UnboundLocalError ''last_exc''), new_context)
   \<and> handle_query bare_tool (plain_tool faq_lookup_tool_fn) (example_queries ! 2) new_context
     = (FaqReply (VStr (faq_lookup_tool (example_queries ! 2))), new_context)
   \<and> main_loop bare_tool (plain_tool faq_lookup_tool_fn)
       [example_queries ! 0, example_queries ! 1, example_queries ! 2] new_context
     = ([FaqReply (VStr (faq_lookup_tool (example_queries ! 0))),
         ErrorReport (UnboundLocalError ''last_exc''),
         FaqReply (VStr (faq_lookup_tool (example_queries ! 2)))], new_context)
   \<and> main_loop bare_tool (plain_tool faq_lookup_tool_fn)
       [example_queries ! 0, example_queries ! 2] new_context
     = ([FaqReply (VStr (faq_lookup_tool (example_queries ! 0))),
         FaqReply (VStr (faq_lookup_tool (example_queries ! 2)))], new_context)"
proof -
  let ?ft = "plain_tool faq_lookup_tool_fn"
  have c0: "\<not> any_in [''seat'', ''change my seat'', ''seat change''] (lower (example_queries ! 0))"
    by (simp add: example_queries_def any_in_def lower_def lower_char_def)
  have c1: "any_in [''seat'', ''change my seat'', ''seat change''] (lower (example_queries ! 1))"
    by (simp add: example_queries_def any_in_def lower_def lower_char_def)
  have c2: "\<not> any_in [''seat'', ''change my seat'', ''seat change''] (lower (example_queries ! 2))"
    by (simp add: example_queries_def any_in_def lower_def lower_char_def)
  have q: "safe_invoke_tool ?ft [VStr x] [] s = (Inr (VStr (faq_lookup_tool x)), s)" for x s
    by (simp add: safe_invoke_tool_def direct_call_def plain_tool_def bare_tool_def
        call_and_await_def await_result_def faq_lookup_tool_fn_def bind_params_def)
  have e: "safe_invoke_tool bare_tool [VRunCtx, VStr ''ABC123'', VStr ''12A''] [] new_context
      = (Inl (UnboundLocalError ''last_exc''), new_context)"
    by (simp add: safe_invoke_tool_def direct_call_def later_strategies_def bare_tool_def)
  have h0: "handle_query bare_tool ?ft (example_queries ! 0) new_context
      = (FaqReply (VStr (faq_lookup_tool (example_queries ! 0))), new_context)"
    unfolding handle_query_def using c0 by (simp add: q)
  have h1: "handle_query bare_tool ?ft (example_queries ! 1) new_context
      = (ErrorReport (UnboundLocalError ''last_exc''), new_context)"
    unfolding handle_query_def using c1 by (simp add: e)
  have h2: "handle_query bare_tool ?ft (example_queries ! 2) new_context
      = (FaqReply (VStr (faq_lookup_tool (example_queries ! 2))), new_context)"
    unfolding handle_query_def using c2 by (simp add: q)
  show ?thesis
    using h0 h1 h2 dispatch_continues [OF h0 h1 h2] by simp
qed

end
